theory Spec2Isabelle
  imports Main
begin

section \<open>Config.py: the connection configuration\<close>

text \<open>
  \<^verbatim>\<open>ConnConfig\<close> holds twelve attributes. \<^verbatim>\<open>__init__\<close> takes four positional
  arguments and eight keyword arguments with defaults; a keyword argument that the caller
  leaves out is \<open>None\<close> below, and the default of the signature is written out.
  \<^verbatim>\<open>ca_cert\<close> is \<^verbatim>\<open>Optional[str]\<close> with default \<^verbatim>\<open>None\<close>.
\<close>

record ConnConfig =
  host_or_dsn :: string
  user_name :: string
  password :: string
  bucket_name :: string
  scope_name :: string
  collection_name :: string
  ssl :: bool
  ca_cert :: "string option"
  connect_timeout :: int
  kv_timeout :: int
  wait_timeout :: int
  sasl_mech :: string

definition or_default :: "'a option \<Rightarrow> 'a \<Rightarrow> 'a" where
  "or_default arg d = (case arg of None \<Rightarrow> d | Some x \<Rightarrow> x)"

definition ConnConfig_init ::
  "string \<Rightarrow> string \<Rightarrow> string \<Rightarrow> string \<Rightarrow> string option \<Rightarrow> string option \<Rightarrow>
   bool option \<Rightarrow> string option \<Rightarrow> int option \<Rightarrow> int option \<Rightarrow> int option \<Rightarrow>
   string option \<Rightarrow> ConnConfig" where
  "ConnConfig_init host user pw bucket scope_arg coll_arg ssl_arg ca_arg connect_arg kv_arg
       wait_arg sasl_arg =
     \<lparr> host_or_dsn = host,
       user_name = user,
       password = pw,
       bucket_name = bucket,
       scope_name = or_default scope_arg ''_default'',
       collection_name = or_default coll_arg ''_default'',
       ssl = or_default ssl_arg False,
       ca_cert = ca_arg,
       connect_timeout = or_default connect_arg 10,
       kv_timeout = or_default kv_arg 5,
       wait_timeout = or_default wait_arg 5,
       sasl_mech = or_default sasl_arg ''PLAIN'' \<rparr>"

text \<open>The module-level \<^verbatim>\<open>connection\<close> of Conn.py (lines 164-171).\<close>

definition connection :: ConnConfig where
  "connection =
     ConnConfig_init ''localhost'' ''Administrator'' ''password'' ''test''
       (Some ''test'') (Some ''test'') None None None None None None"

section \<open>The document-store driver consumed by Conn.py\<close>

text \<open>
  Conn.py imports the driver (\<^verbatim>\<open>acouchbase\<close>, \<^verbatim>\<open>couchbase\<close>); the driver is not part of
  the repository. Its consumed surface is: opening a session, waiting for readiness,
  resolving bucket, scope and collection, \<^verbatim>\<open>get\<close>, \<^verbatim>\<open>upsert\<close> and \<^verbatim>\<open>query\<close>.
  What the backend holds, which calls it rejects and which rows a statement yields are
  left open as fields of the record \<open>world\<close>.
\<close>

subsection \<open>Values and exceptions\<close>

text \<open>
  Python values that travel through the repository: text, bytes, integers and maps with
  text keys. Exceptions are values of \<open>exn\<close>; \<open>CouchbaseException\<close> stands for any
  other failure the backend reports (timeout, authentication, unreachable node).
\<close>

datatype pyval =
    PyStr string
  | PyBytes "nat list"
  | PyInt int
  | PyDict "(string \<times> pyval) list"

datatype exn =
    DocumentNotFoundException
  | ValueFormatException
  | ValueError
  | TypeError
  | AttributeError
  | OverflowError
  | CouchbaseException string

text \<open>
  \<^verbatim>\<open>timedelta(seconds=n)\<close> of the standard library, for an integer \<open>n\<close>: a duration
  of more than 999999999 days in either direction raises \<^verbatim>\<open>OverflowError\<close>. The
  duration is kept in seconds.
\<close>

definition timedelta :: "int \<Rightarrow> exn + int" where
  "timedelta seconds =
     (if - 86399999913600 \<le> seconds \<and> seconds \<le> 86399999999999 then Inr seconds
      else Inl OverflowError)"

subsection \<open>Handles\<close>

datatype authenticator = PasswordAuthenticator string string

text \<open>\<^verbatim>\<open>ClusterTimeoutOptions(connect_timeout=..., kv_timeout=...)\<close>, both in seconds.\<close>

datatype timeout_options = ClusterTimeoutOptions int int

datatype cluster_options = ClusterOptions authenticator timeout_options

datatype cluster = Cluster string cluster_options

datatype bucket = Bucket cluster string

datatype scope = Scope bucket string

datatype collection = Collection scope string

fun coll_path :: "collection \<Rightarrow> string \<times> string \<times> string" where
  "coll_path (Collection (Scope (Bucket cl b) s) c) = (b, s, c)"

subsection \<open>Transcoders\<close>

text \<open>
  A stored document carries a format flag. The default transcoder (no \<^verbatim>\<open>transcoder\<close>
  option, \<open>None\<close> below) is the JSON transcoder: it refuses binary values and
  binary-flagged documents. \<^verbatim>\<open>RawBinaryTranscoder\<close> accepts bytes only and refuses every
  other flag.
\<close>

datatype transcoder = RawBinaryTranscoder

datatype fmt = FMT_JSON | FMT_BYTES

type_synonym doc = "fmt \<times> pyval"

primrec json_serializable :: "pyval \<Rightarrow> bool" where
  "json_serializable (PyStr s) = True"
| "json_serializable (PyBytes b) = False"
| "json_serializable (PyInt n) = True"
| "json_serializable (PyDict kvs) = list_all snd (map (map_prod id json_serializable) kvs)"

fun encode_value :: "transcoder option \<Rightarrow> pyval \<Rightarrow> exn + doc" where
  "encode_value None (PyBytes b) = Inl ValueFormatException"
| "encode_value None v = (if json_serializable v then Inr (FMT_JSON, v) else Inl TypeError)"
| "encode_value (Some RawBinaryTranscoder) (PyBytes b) = Inr (FMT_BYTES, PyBytes b)"
| "encode_value (Some RawBinaryTranscoder) v = Inl ValueFormatException"

fun decode_value :: "transcoder option \<Rightarrow> doc \<Rightarrow> exn + pyval" where
  "decode_value None (FMT_JSON, v) = Inr v"
| "decode_value None (FMT_BYTES, v) = Inl ValueFormatException"
| "decode_value (Some RawBinaryTranscoder) (FMT_BYTES, v) = Inr v"
| "decode_value (Some RawBinaryTranscoder) (FMT_JSON, v) = Inl ValueFormatException"

subsection \<open>Calls and the backend\<close>

text \<open>Every use Conn.py makes of the driver, with the arguments it passes.\<close>

datatype call =
    CallAuthenticator string string
  | CallConnect string cluster_options
  | CallClusterOnConnect cluster
  | CallBucket cluster string
  | CallBucketOnConnect bucket
  | CallScope bucket string
  | CallCollection scope string
  | CallGet collection string "transcoder option"
  | CallUpsert collection string pyval "transcoder option"
  | CallQuery cluster string

text \<open>
  \<open>store\<close>: the documents, by collection path and key. \<open>rows\<close>: the rows the query
  service yields for a statement, in its order. \<open>fault\<close>: the exception with which the
  driver answers a call, if any. \<open>str_of\<close>: Python's \<^verbatim>\<open>str()\<close> of a value that is not
  text. \<open>trace\<close>: the calls made so far, oldest first. \<open>pending\<close>: operations handed
  to the driver whose completion nobody has awaited yet.
\<close>

record world =
  store :: "(string \<times> string \<times> string) \<times> string \<rightharpoonup> doc"
  rows :: "string \<Rightarrow> pyval list"
  fault :: "call \<Rightarrow> exn option"
  str_of :: "pyval \<Rightarrow> string"
  trace :: "call list"
  pending :: "call list"

definition called :: "call \<Rightarrow> world \<Rightarrow> world" where
  "called c w = w\<lparr>trace := trace w @ [c]\<rparr>"

text \<open>
  An asynchronous operation is handed to the driver when the method is called; the method
  returns an awaitable. The operation takes effect when the event loop completes it, and
  its failure, an encoding failure included, is delivered through the awaitable.
\<close>

definition dispatch :: "call \<Rightarrow> world \<Rightarrow> world" where
  "dispatch c w = w\<lparr>trace := trace w @ [c], pending := pending w @ [c]\<rparr>"

definition upsert_outcome :: "world \<Rightarrow> call \<Rightarrow> transcoder option \<Rightarrow> pyval \<Rightarrow> exn + doc" where
  "upsert_outcome w c t v = (case fault w c of Some e \<Rightarrow> Inl e | None \<Rightarrow> encode_value t v)"

fun complete :: "call \<Rightarrow> world \<Rightarrow> world" where
  "complete (CallUpsert h k v t) w =
     (case upsert_outcome w (CallUpsert h k v t) t v of
        Inl e \<Rightarrow> w
      | Inr d \<Rightarrow> w\<lparr>store := (store w)((coll_path h, k) \<mapsto> d)\<rparr>)"
| "complete c w = w"

text \<open>
  \<^verbatim>\<open>await\<close> suspends the caller and lets the event loop run until the awaited operation
  is done: the operations handed over earlier complete first, in the order they were
  handed over.
\<close>

definition run_loop :: "world \<Rightarrow> world" where
  "run_loop w = fold complete (pending w) (w\<lparr>pending := []\<rparr>)"

text \<open>A synchronous driver call, and an awaited one that only succeeds or fails.\<close>

definition sync_call :: "call \<Rightarrow> world \<Rightarrow> exn option \<times> world" where
  "sync_call c w = (fault w c, called c w)"

definition await_call :: "call \<Rightarrow> world \<Rightarrow> exn option \<times> world" where
  "await_call c w = (fault w c, run_loop (called c w))"

datatype GetResult = GetResult pyval

datatype MutationResult = MutationResult

text \<open>\<^verbatim>\<open>await collection.get(key[, GetOptions(transcoder=t)])\<close>\<close>

definition await_get ::
  "collection \<Rightarrow> string \<Rightarrow> transcoder option \<Rightarrow> world \<Rightarrow> (exn + GetResult) \<times> world" where
  "await_get h k t w =
     (let c = CallGet h k t; w1 = run_loop (called c w) in
      ((case fault w1 c of
          Some e \<Rightarrow> Inl e
        | None \<Rightarrow>
            (case store w1 (coll_path h, k) of
               None \<Rightarrow> Inl DocumentNotFoundException
             | Some d \<Rightarrow>
                 (case decode_value t d of Inl e \<Rightarrow> Inl e | Inr v \<Rightarrow> Inr (GetResult v)))),
       w1))"

text \<open>\<^verbatim>\<open>await collection.upsert(key, value[, UpsertOptions(transcoder=t)])\<close>\<close>

definition await_upsert ::
  "collection \<Rightarrow> string \<Rightarrow> pyval \<Rightarrow> transcoder option \<Rightarrow> world \<Rightarrow>
   (exn + MutationResult) \<times> world" where
  "await_upsert h k v t w =
     (let c = CallUpsert h k v t; w1 = run_loop (dispatch c w) in
      ((case upsert_outcome w c t v of Inl e \<Rightarrow> Inl e | Inr d \<Rightarrow> Inr MutationResult), w1))"

subsection \<open>Result content, cast to a Python type\<close>

text \<open>
  \<^verbatim>\<open>result.content_as[T]\<close> applies the Python type \<^verbatim>\<open>T\<close> to the decoded content.
  \<^verbatim>\<open>dict(x)\<close>: a map is copied; an empty text or byte string gives the empty map; a text
  with characters raises \<^verbatim>\<open>ValueError\<close> (its elements have length 1, not 2); bytes and
  integers raise \<^verbatim>\<open>TypeError\<close>.
  \<^verbatim>\<open>bytes(x)\<close>: bytes are copied; text raises \<^verbatim>\<open>TypeError\<close> (no encoding given); an
  integer \<open>n\<close> gives \<open>n\<close> zero bytes (memory permitting), raises
  \<^verbatim>\<open>ValueError\<close> when negative and \<^verbatim>\<open>OverflowError\<close> outside the signed 64-bit
  range; a map
  is iterated over its text keys and raises \<^verbatim>\<open>TypeError\<close> unless it is empty.
  \<^verbatim>\<open>str(x)\<close> never raises.
\<close>

fun content_as_dict :: "pyval \<Rightarrow> exn + pyval" where
  "content_as_dict (PyDict kvs) = Inr (PyDict kvs)"
| "content_as_dict (PyStr s) = (if s = [] then Inr (PyDict []) else Inl ValueError)"
| "content_as_dict (PyBytes b) = (if b = [] then Inr (PyDict []) else Inl TypeError)"
| "content_as_dict (PyInt n) = Inl TypeError"

fun content_as_bytes :: "pyval \<Rightarrow> exn + pyval" where
  "content_as_bytes (PyBytes b) = Inr (PyBytes b)"
| "content_as_bytes (PyStr s) = Inl TypeError"
| "content_as_bytes (PyInt n) =
     (if n < - 9223372036854775808 \<or> 9223372036854775808 \<le> n then Inl OverflowError
      else if n < 0 then Inl ValueError
      else Inr (PyBytes (replicate (nat n) 0)))"
| "content_as_bytes (PyDict kvs) = (if kvs = [] then Inr (PyBytes []) else Inl TypeError)"

fun content_as_str :: "world \<Rightarrow> pyval \<Rightarrow> pyval" where
  "content_as_str w (PyStr s) = PyStr s"
| "content_as_str w v = PyStr (str_of w v)"

section \<open>Conn.py: the online repository\<close>

text \<open>
  \<^verbatim>\<open>_OnlineRepoCouchbase\<close> has the attributes \<^verbatim>\<open>conn\<close> (the collection handle),
  \<^verbatim>\<open>cluster\<close> and \<^verbatim>\<open>conn_config\<close>. A method takes the object and the world and returns
  its result (\<open>Inl\<close> an exception that leaves the method) with the world, and with the
  object when the method assigns to an attribute. Logging has no effect on either and is
  left out; so is the \<^verbatim>\<open>content_as[str]\<close> that \<^verbatim>\<open>find_by_key\<close> evaluates for its log
  line, which never raises. Every \<^verbatim>\<open>except Exception as e: raise e\<close> passes the
  exception on unchanged.
\<close>

record OnlineRepoCouchbase =
  conn :: "collection option"
  cluster :: "cluster option"
  conn_config :: ConnConfig

definition OnlineRepoCouchbase_init :: "ConnConfig \<Rightarrow> OnlineRepoCouchbase" where
  "OnlineRepoCouchbase_init cfg = \<lparr> conn = None, cluster = None, conn_config = cfg \<rparr>"

text \<open>
  \<^verbatim>\<open>create_conn\<close> (lines 48-85). The two \<^verbatim>\<open>timedelta\<close> of lines 62-63 are built
  after the authenticator and before the session is opened, and either may raise.
  \<^verbatim>\<open>self.cluster\<close> is assigned as soon as \<^verbatim>\<open>Cluster.connect\<close> has returned;
  \<^verbatim>\<open>self.conn\<close> is assigned by the last statement.
\<close>

definition create_conn ::
  "ConnConfig \<Rightarrow> OnlineRepoCouchbase \<Rightarrow> world \<Rightarrow> (exn + unit) \<times> OnlineRepoCouchbase \<times> world" where
  "create_conn cfg r w =
     (case sync_call (CallAuthenticator (user_name cfg) (password cfg)) w of
        (Some e, w1) \<Rightarrow> (Inl e, r, w1)
      | (None, w1) \<Rightarrow>
     (let auth = PasswordAuthenticator (user_name cfg) (password cfg) in
      case timedelta (connect_timeout cfg) of
        Inl e \<Rightarrow> (Inl e, r, w1)
      | Inr connect_td \<Rightarrow>
     (case timedelta (kv_timeout cfg) of
        Inl e \<Rightarrow> (Inl e, r, w1)
      | Inr kv_td \<Rightarrow>
     (let timeout_opts = ClusterTimeoutOptions connect_td kv_td;
          url = ''couchbase://'' @ host_or_dsn cfg;
          opts = ClusterOptions auth timeout_opts in
      case await_call (CallConnect url opts) w1 of
        (Some e, w2) \<Rightarrow> (Inl e, r, w2)
      | (None, w2) \<Rightarrow>
     (let cl = Cluster url opts; r1 = r\<lparr>cluster := Some cl\<rparr> in
      case await_call (CallClusterOnConnect cl) w2 of
        (Some e, w3) \<Rightarrow> (Inl e, r1, w3)
      | (None, w3) \<Rightarrow>
     (case sync_call (CallBucket cl (bucket_name cfg)) w3 of
        (Some e, w4) \<Rightarrow> (Inl e, r1, w4)
      | (None, w4) \<Rightarrow>
     (let b = Bucket cl (bucket_name cfg) in
      case await_call (CallBucketOnConnect b) w4 of
        (Some e, w5) \<Rightarrow> (Inl e, r1, w5)
      | (None, w5) \<Rightarrow>
     (case sync_call (CallScope b (scope_name cfg)) w5 of
        (Some e, w6) \<Rightarrow> (Inl e, r1, w6)
      | (None, w6) \<Rightarrow>
     (let sc = Scope b (scope_name cfg) in
      case sync_call (CallCollection sc (collection_name cfg)) w6 of
        (Some e, w7) \<Rightarrow> (Inl e, r1, w7)
      | (None, w7) \<Rightarrow>
          (Inr (), r1\<lparr>conn := Some (Collection sc (collection_name cfg))\<rparr>, w7))))))))))"

text \<open>\<^verbatim>\<open>initialize_repo\<close> (lines 32-46).\<close>

definition initialize_repo ::
  "OnlineRepoCouchbase \<Rightarrow> world \<Rightarrow> (exn + unit) \<times> OnlineRepoCouchbase \<times> world" where
  "initialize_repo r w =
     (if conn r = None then create_conn (conn_config r) r w else (Inr (), r, w))"

text \<open>
  The handler \<^verbatim>\<open>except DocumentNotFoundException: return None\<close> that \<^verbatim>\<open>validate\<close> and
  \<^verbatim>\<open>find_by_key\<close> put around their body, followed by \<^verbatim>\<open>except Exception\<close>, which
  raises again.
\<close>

definition except_not_found :: "exn + 'a option \<Rightarrow> exn + 'a option" where
  "except_not_found res =
     (case res of
        Inl e \<Rightarrow> if e = DocumentNotFoundException then Inr None else Inl e
      | Inr x \<Rightarrow> Inr x)"

text \<open>
  \<^verbatim>\<open>validate\<close> (lines 87-101). With \<^verbatim>\<open>self.conn\<close> still \<^verbatim>\<open>None\<close>, \<^verbatim>\<open>self.conn.get\<close>
  raises \<^verbatim>\<open>AttributeError\<close> inside the \<^verbatim>\<open>try\<close>; the same holds in the methods below.
\<close>

definition validate :: "OnlineRepoCouchbase \<Rightarrow> world \<Rightarrow> (exn + GetResult option) \<times> world" where
  "validate r w =
     (case conn r of
        None \<Rightarrow> (Inl AttributeError, w)
      | Some h \<Rightarrow>
          (let transcoder = RawBinaryTranscoder in
           case await_get h ''dummykey'' (Some transcoder) w of
             (res, w1) \<Rightarrow> (except_not_found (map_sum id Some res), w1)))"

text \<open>
  \<^verbatim>\<open>find_by_key\<close> (lines 103-127). The \<^verbatim>\<open>get\<close> of line 108 carries no options. The
  \<^verbatim>\<open>RawBinaryTranscoder()\<close> of line 114 is bound to a local name and not used.
\<close>

definition find_by_key ::
  "string \<Rightarrow> bool \<Rightarrow> OnlineRepoCouchbase \<Rightarrow> world \<Rightarrow> (exn + pyval option) \<times> world" where
  "find_by_key key compress r w =
     (case conn r of
        None \<Rightarrow> (Inl AttributeError, w)
      | Some h \<Rightarrow>
          (case await_get h key None w of
             (Inl e, w1) \<Rightarrow> (except_not_found (Inl e), w1)
           | (Inr (GetResult content), w1) \<Rightarrow>
               (except_not_found
                  (if compress then
                     (let transcoder = RawBinaryTranscoder in
                      map_sum id Some (content_as_bytes content))
                   else
                     (case content_as_dict content of
                        Inr d \<Rightarrow> Inr (Some d)
                      | Inl e \<Rightarrow>
                          if e = ValueError then Inr (Some (content_as_str w1 content))
                          else Inl e)),
                w1)))"

text \<open>\<^verbatim>\<open>save\<close> (lines 129-140).\<close>

definition save ::
  "string \<Rightarrow> pyval \<Rightarrow> bool \<Rightarrow> OnlineRepoCouchbase \<Rightarrow> world \<Rightarrow> (exn + MutationResult) \<times> world" where
  "save key val compress r w =
     (case conn r of
        None \<Rightarrow> (Inl AttributeError, w)
      | Some h \<Rightarrow>
          (if compress then
             (let transcoder = RawBinaryTranscoder in await_upsert h key val (Some transcoder) w)
           else await_upsert h key val None w))"

text \<open>
  \<^verbatim>\<open>save_all\<close> (lines 142-151) is a plain \<^verbatim>\<open>def\<close>: each \<^verbatim>\<open>self.conn.upsert(key, value)\<close>
  hands the operation to the driver and drops the awaitable it gets back. The argument is
  the mapping as \<^verbatim>\<open>items()\<close> iterates it.
\<close>

fun save_all_items ::
  "collection option \<Rightarrow> (string \<times> pyval) list \<Rightarrow> world \<Rightarrow> (exn + unit) \<times> world" where
  "save_all_items c [] w = (Inr (), w)"
| "save_all_items c ((key, val) # rest) w =
     (case c of
        None \<Rightarrow> (Inl AttributeError, w)
      | Some h \<Rightarrow> save_all_items c rest (dispatch (CallUpsert h key val None) w))"

definition save_all ::
  "(string \<times> pyval) list \<Rightarrow> OnlineRepoCouchbase \<Rightarrow> world \<Rightarrow> (exn + unit) \<times> world" where
  "save_all obj_to_save r w = save_all_items (conn r) obj_to_save w"

text \<open>
  \<^verbatim>\<open>native_query\<close> (lines 153-161) is a plain \<^verbatim>\<open>def\<close>. \<^verbatim>\<open>self.cluster\<close> is the
  cluster that \<^verbatim>\<open>Cluster.connect\<close> of \<^verbatim>\<open>acouchbase\<close> returned (lines 4 and 66): the
  result of its \<^verbatim>\<open>query\<close> yields its rows to \<^verbatim>\<open>async for\<close> only. The comprehension
  \<^verbatim>\<open>[row for row in result]\<close> asks the result for a synchronous iterator, which raises
  \<^verbatim>\<open>AttributeError\<close> on such a result, and appends each row of an iterator it gets.
\<close>

datatype query_result = SyncRows "pyval list" | AsyncRows "pyval list"

fun sync_iter :: "query_result \<Rightarrow> exn + pyval list" where
  "sync_iter (SyncRows rs) = Inr rs"
| "sync_iter (AsyncRows rs) = Inl AttributeError"

definition cluster_query :: "cluster \<Rightarrow> string \<Rightarrow> world \<Rightarrow> (exn + query_result) \<times> world" where
  "cluster_query cl statement w =
     (case sync_call (CallQuery cl statement) w of
        (Some e, w1) \<Rightarrow> (Inl e, w1)
      | (None, w1) \<Rightarrow> (Inr (AsyncRows (rows w1 statement)), w1))"

fun comprehension :: "'a list \<Rightarrow> 'a list \<Rightarrow> 'a list" where
  "comprehension acc [] = acc"
| "comprehension acc (row # result) = comprehension (acc @ [row]) result"

definition native_query ::
  "string \<Rightarrow> OnlineRepoCouchbase \<Rightarrow> world \<Rightarrow> (exn + pyval list) \<times> world" where
  "native_query query r w =
     (case cluster r of
        None \<Rightarrow> (Inl AttributeError, w)
      | Some cl \<Rightarrow>
          (case cluster_query cl query w of
             (Inl e, w1) \<Rightarrow> (Inl e, w1)
           | (Inr result, w1) \<Rightarrow>
               (case sync_iter result of
                  Inl e \<Rightarrow> (Inl e, w1)
                | Inr rs \<Rightarrow> (Inr (comprehension [] rs), w1))))"

section \<open>The bind sequence as the specification lists it\<close>

text \<open>
  The calls of the bind sequence for a configuration, in the order of the specification:
  authenticator, session, cluster readiness, bucket, bucket readiness, scope, collection.
  \<open>attempted\<close> are the calls made when each failure aborts the remainder, and
  \<open>first_failure\<close> is the exception that aborts, if any. When a configured timeout is
  not representable as a duration, the sequence ends after the authenticator
  (\<open>bind_calls\<close>).
\<close>

definition session_of :: "ConnConfig \<Rightarrow> cluster" where
  "session_of cfg =
     Cluster (''couchbase://'' @ host_or_dsn cfg)
       (ClusterOptions (PasswordAuthenticator (user_name cfg) (password cfg))
          (ClusterTimeoutOptions (connect_timeout cfg) (kv_timeout cfg)))"

definition bucket_of :: "ConnConfig \<Rightarrow> bucket" where
  "bucket_of cfg = Bucket (session_of cfg) (bucket_name cfg)"

definition scope_of :: "ConnConfig \<Rightarrow> scope" where
  "scope_of cfg = Scope (bucket_of cfg) (scope_name cfg)"

definition collection_of :: "ConnConfig \<Rightarrow> collection" where
  "collection_of cfg = Collection (scope_of cfg) (collection_name cfg)"

definition bind_sequence :: "ConnConfig \<Rightarrow> call list" where
  "bind_sequence cfg =
     [CallAuthenticator (user_name cfg) (password cfg),
      CallConnect (''couchbase://'' @ host_or_dsn cfg)
        (ClusterOptions (PasswordAuthenticator (user_name cfg) (password cfg))
           (ClusterTimeoutOptions (connect_timeout cfg) (kv_timeout cfg))),
      CallClusterOnConnect (session_of cfg),
      CallBucket (session_of cfg) (bucket_name cfg),
      CallBucketOnConnect (bucket_of cfg),
      CallScope (bucket_of cfg) (scope_name cfg),
      CallCollection (scope_of cfg) (collection_name cfg)]"

definition timeouts_representable :: "ConnConfig \<Rightarrow> bool" where
  "timeouts_representable cfg =
     (timedelta (connect_timeout cfg) = Inr (connect_timeout cfg) \<and>
      timedelta (kv_timeout cfg) = Inr (kv_timeout cfg))"

definition bind_calls :: "ConnConfig \<Rightarrow> call list" where
  "bind_calls cfg =
     (if timeouts_representable cfg then bind_sequence cfg else take 1 (bind_sequence cfg))"

fun attempted :: "(call \<Rightarrow> exn option) \<Rightarrow> call list \<Rightarrow> call list" where
  "attempted f [] = []"
| "attempted f (c # cs) = (case f c of Some e \<Rightarrow> [c] | None \<Rightarrow> c # attempted f cs)"

fun first_failure :: "(call \<Rightarrow> exn option) \<Rightarrow> call list \<Rightarrow> exn option" where
  "first_failure f [] = None"
| "first_failure f (c # cs) = (case f c of Some e \<Rightarrow> Some e | None \<Rightarrow> first_failure f cs)"

text \<open>A configuration with other values for the TLS flag, the CA path and the mechanism.\<close>

definition tls_fields :: "bool \<Rightarrow> string option \<Rightarrow> string \<Rightarrow> ConnConfig \<Rightarrow> ConnConfig" where
  "tls_fields s ca m cfg = cfg\<lparr>ssl := s, ca_cert := ca, sasl_mech := m\<rparr>"

section \<open>A concrete backend and a bound repository\<close>

text \<open>
  An empty backend that accepts every call, the handles that \<^verbatim>\<open>create_conn\<close> resolves for
  \<open>connection\<close>, and the repository bound to them.
\<close>

definition healthy :: world where
  "healthy =
     \<lparr> store = Map.empty, rows = (\<lambda>q. []), fault = (\<lambda>c. None), str_of = (\<lambda>v. ''<value>''),
       trace = [], pending = [] \<rparr>"

definition local_cluster :: cluster where
  "local_cluster =
     Cluster ''couchbase://localhost''
       (ClusterOptions (PasswordAuthenticator ''Administrator'' ''password'')
          (ClusterTimeoutOptions 10 5))"

definition test_collection :: collection where
  "test_collection = Collection (Scope (Bucket local_cluster ''test'') ''test'') ''test''"

definition bound_repo :: OnlineRepoCouchbase where
  "bound_repo =
     \<lparr> conn = Some test_collection, cluster = Some local_cluster, conn_config = connection \<rparr>"

text \<open>The rows of a query result, for the concrete evaluation of \<^verbatim>\<open>native_query\<close>.\<close>

definition two_rows :: world where
  "two_rows = healthy\<lparr>rows := (\<lambda>q. [PyInt 1, PyInt 2])\<rparr>"

text \<open>A backend whose session cannot be reached: every call fails.\<close>

definition unreachable :: world where
  "unreachable = healthy\<lparr>fault := (\<lambda>c. Some (CouchbaseException ''unreachable''))\<rparr>"

section \<open>The event loop and the trace\<close>

text \<open>
  Completing pending operations changes the store only; recording a call changes the trace
  only; the two commute.
\<close>

lemma called_fields [simp]:
  "trace (called c w) = trace w @ [c]"
  "fault (called c w) = fault w"
  "rows (called c w) = rows w"
  "str_of (called c w) = str_of w"
  "pending (called c w) = pending w"
  "store (called c w) = store w"
  by (simp_all add: called_def)

lemma complete_fields [simp]:
  "trace (complete c w) = trace w"
  "fault (complete c w) = fault w"
  "rows (complete c w) = rows w"
  "str_of (complete c w) = str_of w"
  "pending (complete c w) = pending w"
  by (cases c; simp add: upsert_outcome_def split: option.splits sum.splits)+

lemma fold_complete_fields [simp]:
  "trace (fold complete cs w) = trace w"
  "fault (fold complete cs w) = fault w"
  "rows (fold complete cs w) = rows w"
  "str_of (fold complete cs w) = str_of w"
  "pending (fold complete cs w) = pending w"
  by (induction cs arbitrary: w; simp)+

lemma run_loop_fields [simp]:
  "trace (run_loop w) = trace w"
  "fault (run_loop w) = fault w"
  "rows (run_loop w) = rows w"
  "str_of (run_loop w) = str_of w"
  "pending (run_loop w) = []"
  by (simp_all add: run_loop_def)

lemma run_loop_idle: "pending w = [] \<Longrightarrow> run_loop w = w"
  by (simp add: run_loop_def)

lemma complete_called: "complete c (called d w) = called d (complete c w)"
  by (cases c; simp add: called_def upsert_outcome_def split: option.splits sum.splits)

lemma fold_complete_called: "fold complete cs (called d w) = called d (fold complete cs w)"
  by (induction cs arbitrary: w) (simp_all add: complete_called)

lemma run_loop_called: "run_loop (called d w) = called d (run_loop w)"
proof -
  have h: "(called d w)\<lparr>pending := []\<rparr> = called d (w\<lparr>pending := []\<rparr>)"
    by (simp add: called_def)
  have "run_loop (called d w) = fold complete (pending w) ((called d w)\<lparr>pending := []\<rparr>)"
    by (simp add: run_loop_def)
  also have "\<dots> = called d (fold complete (pending w) (w\<lparr>pending := []\<rparr>))"
    unfolding h by (rule fold_complete_called)
  finally show ?thesis
    by (simp add: run_loop_def)
qed

lemma dispatch_fields [simp]:
  "trace (dispatch c w) = trace w @ [c]"
  "fault (dispatch c w) = fault w"
  "rows (dispatch c w) = rows w"
  "str_of (dispatch c w) = str_of w"
  "pending (dispatch c w) = pending w @ [c]"
  "store (dispatch c w) = store w"
  by (simp_all add: dispatch_def)

lemma run_loop_dispatch: "run_loop (dispatch c w) = called c (complete c (run_loop w))"
proof -
  have h: "(dispatch c w)\<lparr>pending := []\<rparr> = called c (w\<lparr>pending := []\<rparr>)"
    by (simp add: dispatch_def called_def)
  have "run_loop (dispatch c w) =
      fold complete (pending w @ [c]) ((dispatch c w)\<lparr>pending := []\<rparr>)"
    by (simp add: run_loop_def)
  also have "\<dots> = complete c (fold complete (pending w) (called c (w\<lparr>pending := []\<rparr>)))"
    unfolding h by simp
  also have "\<dots> = complete c (called c (run_loop w))"
    by (simp add: fold_complete_called run_loop_def)
  finally show ?thesis
    by (simp add: complete_called)
qed

lemma store_complete_upsert:
  assumes "fault w (CallUpsert h k v t) = None" and "encode_value t v = Inr d"
  shows "store (complete (CallUpsert h k v t) w) = (store w)((coll_path h, k) \<mapsto> d)"
  using assms by (simp add: upsert_outcome_def)

lemma fold_complete_store_other:
  assumes "k \<notin> fst ` set kvs"
  shows "store (fold complete (map (\<lambda>(k, v). CallUpsert h k v None) kvs) w) (coll_path h, k) =
         store w (coll_path h, k)"
  using assms
proof (induction kvs arbitrary: w)
  case Nil
  show ?case by simp
next
  case (Cons kv kvs)
  obtain k' v' where kv: "kv = (k', v')"
    by (cases kv)
  from Cons.prems have ne: "k' \<noteq> k" and rest: "k \<notin> fst ` set kvs"
    by (auto simp: kv)
  have "store (complete (CallUpsert h k' v' None) w) (coll_path h, k) = store w (coll_path h, k)"
    using ne by (simp add: upsert_outcome_def split: option.splits sum.splits)
  then show ?case
    unfolding kv using Cons.IH [OF rest] by simp
qed

lemma fold_complete_store_member:
  assumes "distinct (map fst kvs)" and "(k, v) \<in> set kvs"
    and "fault w (CallUpsert h k v None) = None" and "encode_value None v = Inr d"
  shows "store (fold complete (map (\<lambda>(k, v). CallUpsert h k v None) kvs) w) (coll_path h, k) =
         Some d"
  using assms
proof (induction kvs arbitrary: w)
  case Nil
  then show ?case by simp
next
  case (Cons kv kvs)
  obtain k' v' where kv: "kv = (k', v')"
    by (cases kv)
  show ?case
  proof (cases "(k, v) = kv")
    case True
    then have eq: "k' = k" "v' = v"
      by (simp_all add: kv)
    from Cons.prems(1) have "k \<notin> fst ` set kvs"
      by (simp add: kv eq)
    then have "store (fold complete (map (\<lambda>(k, v). CallUpsert h k v None) kvs)
        (complete (CallUpsert h k v None) w)) (coll_path h, k) =
        store (complete (CallUpsert h k v None) w) (coll_path h, k)"
      by (rule fold_complete_store_other)
    also have "\<dots> = Some d"
      using Cons.prems(3,4) by (simp add: upsert_outcome_def)
    finally show ?thesis
      by (simp add: kv eq)
  next
    case False
    with Cons.prems(2) have mem: "(k, v) \<in> set kvs"
      by simp
    from Cons.prems(1) have dist: "distinct (map fst kvs)"
      by simp
    have flt: "fault (complete (CallUpsert h k' v' None) w) (CallUpsert h k v None) = None"
      using Cons.prems(3) by (simp only: complete_fields)
    have "store (fold complete (map (\<lambda>(k, v). CallUpsert h k v None) kvs)
        (complete (CallUpsert h k' v' None) w)) (coll_path h, k) = Some d"
      by (rule Cons.IH [OF dist mem flt Cons.prems(4)])
    then show ?thesis
      by (simp add: kv)
  qed
qed

declare complete.simps [simp del]

text \<open>Outcome and effect of an awaited \<^verbatim>\<open>upsert\<close> and of an awaited \<^verbatim>\<open>get\<close>.\<close>

lemma await_upsert_accepted:
  assumes "fault w (CallUpsert h k v t) = None" and "encode_value t v = Inr d"
  shows "fst (await_upsert h k v t w) = Inr MutationResult"
    and "store (snd (await_upsert h k v t w)) (coll_path h, k) = Some d"
    and "pending (snd (await_upsert h k v t w)) = []"
    and "fault (snd (await_upsert h k v t w)) = fault w"
  using assms
  by (simp_all add: await_upsert_def Let_def run_loop_dispatch upsert_outcome_def
      store_complete_upsert)

lemma await_upsert_trace:
  "trace (snd (await_upsert h k v t w)) = trace w @ [CallUpsert h k v t]"
  by (simp add: await_upsert_def Let_def run_loop_dispatch)

lemma await_get_stored:
  assumes "fault w (CallGet h k t) = None" and "pending w = []"
    and "store w (coll_path h, k) = Some d"
  shows "fst (await_get h k t w) = map_sum id GetResult (decode_value t d)"
  using assms
  by (simp add: await_get_def Let_def run_loop_called run_loop_idle split: sum.splits)

text \<open>The concrete backend and repository, field by field.\<close>

lemma healthy_fields [simp]:
  "store healthy = Map.empty"
  "rows healthy = (\<lambda>q. [])"
  "fault healthy = (\<lambda>c. None)"
  "trace healthy = []"
  "pending healthy = []"
  by (simp_all add: healthy_def)

lemma bound_repo_fields [simp]:
  "conn bound_repo = Some test_collection"
  "cluster bound_repo = Some local_cluster"
  "conn_config bound_repo = connection"
  by (simp_all add: bound_repo_def)

section \<open>Configuration\<close>

text \<open>
  C9 (as the specification states it, refuted): a constructed configuration would always
  have a non-empty bucket name. \<^verbatim>\<open>__init__\<close> stores the bucket name it is given and
  checks nothing: constructed with the empty string, the configuration has an empty
  bucket name.
\<close>

theorem ConnConfig_init_empty_bucket:
  "bucket_name (ConnConfig_init ''localhost'' ''Administrator'' ''password'' ''''
      None None None None None None None None) = ''''"
  by (simp add: ConnConfig_init_def)

text \<open>
  C9 (amended): \<^verbatim>\<open>__init__\<close> sets all twelve attributes, each to the argument passed
  for it or, for a keyword argument left out, to the default of the signature. The bucket
  name is the argument as given, whatever it is.
\<close>

theorem ConnConfig_init_fields:
  "host_or_dsn (ConnConfig_init host user pw bucket sc co s ca ct kt wt sm) = host \<and>
   user_name (ConnConfig_init host user pw bucket sc co s ca ct kt wt sm) = user \<and>
   password (ConnConfig_init host user pw bucket sc co s ca ct kt wt sm) = pw \<and>
   bucket_name (ConnConfig_init host user pw bucket sc co s ca ct kt wt sm) = bucket \<and>
   scope_name (ConnConfig_init host user pw bucket sc co s ca ct kt wt sm) =
     (case sc of None \<Rightarrow> ''_default'' | Some x \<Rightarrow> x) \<and>
   collection_name (ConnConfig_init host user pw bucket sc co s ca ct kt wt sm) =
     (case co of None \<Rightarrow> ''_default'' | Some x \<Rightarrow> x) \<and>
   ssl (ConnConfig_init host user pw bucket sc co s ca ct kt wt sm) =
     (case s of None \<Rightarrow> False | Some x \<Rightarrow> x) \<and>
   ca_cert (ConnConfig_init host user pw bucket sc co s ca ct kt wt sm) = ca \<and>
   connect_timeout (ConnConfig_init host user pw bucket sc co s ca ct kt wt sm) =
     (case ct of None \<Rightarrow> 10 | Some x \<Rightarrow> x) \<and>
   kv_timeout (ConnConfig_init host user pw bucket sc co s ca ct kt wt sm) =
     (case kt of None \<Rightarrow> 5 | Some x \<Rightarrow> x) \<and>
   wait_timeout (ConnConfig_init host user pw bucket sc co s ca ct kt wt sm) =
     (case wt of None \<Rightarrow> 5 | Some x \<Rightarrow> x) \<and>
   sasl_mech (ConnConfig_init host user pw bucket sc co s ca ct kt wt sm) =
     (case sm of None \<Rightarrow> ''PLAIN'' | Some x \<Rightarrow> x)"
  by (simp add: ConnConfig_init_def or_default_def)

section \<open>Connection lifecycle\<close>

text \<open>
  With timeouts that \<^verbatim>\<open>timedelta\<close> accepts, \<^verbatim>\<open>create_conn\<close> makes the calls of the
  bind sequence in the specification's order and stops at the first one that fails: the
  calls it has made are exactly \<open>attempted\<close>, its result is the first failure, and the
  collection handle is stored only when no call failed.
\<close>

lemma timedelta_representable:
  assumes "timeouts_representable cfg"
  shows "timedelta (connect_timeout cfg) = Inr (connect_timeout cfg)"
    and "timedelta (kv_timeout cfg) = Inr (kv_timeout cfg)"
  using assms by (simp_all add: timeouts_representable_def)

lemma create_conn_bind_sequence:
  assumes "create_conn cfg r w = (res, r', w')" and "timeouts_representable cfg"
  shows "trace w' = trace w @ attempted (fault w) (bind_sequence cfg)"
    and "res = (case first_failure (fault w) (bind_sequence cfg) of
                  None \<Rightarrow> Inr () | Some e \<Rightarrow> Inl e)"
    and "conn r' = (case first_failure (fault w) (bind_sequence cfg) of
                  None \<Rightarrow> Some (collection_of cfg) | Some e \<Rightarrow> conn r)"
  using assms(1)
  by (auto simp: create_conn_def sync_call_def await_call_def Let_def bind_sequence_def
      session_of_def bucket_of_def scope_of_def collection_of_def
      timedelta_representable [OF assms(2)]
      split: option.splits)

text \<open>
  With a timeout that \<^verbatim>\<open>timedelta\<close> refuses, the authenticator is the only call:
  \<^verbatim>\<open>create_conn\<close> raises its failure or else \<^verbatim>\<open>OverflowError\<close>, and binds nothing.
\<close>

lemma timedelta_cases: "timedelta n = Inr n \<or> timedelta n = Inl OverflowError"
  by (simp add: timedelta_def)

lemma create_conn_overflow:
  assumes "create_conn cfg r w = (res, r', w')" and "\<not> timeouts_representable cfg"
  shows "trace w' = trace w @ [CallAuthenticator (user_name cfg) (password cfg)]"
    and "res = (case fault w (CallAuthenticator (user_name cfg) (password cfg)) of
                  None \<Rightarrow> Inl OverflowError | Some e \<Rightarrow> Inl e)"
    and "r' = r"
  using assms timedelta_cases [of "connect_timeout cfg"] timedelta_cases [of "kv_timeout cfg"]
  by (auto simp: create_conn_def sync_call_def Let_def timeouts_representable_def
      split: option.splits)

lemma create_conn_bind_calls:
  "trace (snd (snd (create_conn cfg r w))) = trace w @ attempted (fault w) (bind_calls cfg)"
proof -
  obtain res r1 w1 where cc: "create_conn cfg r w = (res, r1, w1)"
    by (cases "create_conn cfg r w")
  show ?thesis
  proof (cases "timeouts_representable cfg")
    case True
    then show ?thesis
      using create_conn_bind_sequence(1) [OF cc True] by (simp add: cc bind_calls_def)
  next
    case False
    then show ?thesis
      using create_conn_overflow(1) [OF cc False]
      by (simp add: cc bind_calls_def bind_sequence_def split: option.splits)
  qed
qed

lemma create_conn_wait_timeout:
  "create_conn (cfg\<lparr>wait_timeout := t\<rparr>) r w = create_conn cfg r w"
  by (simp add: create_conn_def Let_def
      cong: prod.case_cong option.case_cong sum.case_cong)

lemma create_conn_tls: "create_conn (tls_fields s ca m cfg) r w = create_conn cfg r w"
  by (simp add: create_conn_def tls_fields_def Let_def
      cong: prod.case_cong option.case_cong sum.case_cong)

lemma create_conn_conn_config:
  "create_conn cfg (r\<lparr>conn_config := c\<rparr>) w =
     (case create_conn cfg r w of (res, r1, w1) \<Rightarrow> (res, r1\<lparr>conn_config := c\<rparr>, w1))"
  by (simp add: create_conn_def sync_call_def await_call_def Let_def
      split: option.splits sum.splits)

lemma tls_fields_selectors [simp]:
  "host_or_dsn (tls_fields s ca m cfg) = host_or_dsn cfg"
  "user_name (tls_fields s ca m cfg) = user_name cfg"
  "password (tls_fields s ca m cfg) = password cfg"
  "bucket_name (tls_fields s ca m cfg) = bucket_name cfg"
  "scope_name (tls_fields s ca m cfg) = scope_name cfg"
  "collection_name (tls_fields s ca m cfg) = collection_name cfg"
  "connect_timeout (tls_fields s ca m cfg) = connect_timeout cfg"
  "kv_timeout (tls_fields s ca m cfg) = kv_timeout cfg"
  "wait_timeout (tls_fields s ca m cfg) = wait_timeout cfg"
  by (simp_all add: tls_fields_def)

lemma bind_sequence_tls: "bind_sequence (tls_fields s ca m cfg) = bind_sequence cfg"
  by (simp add: bind_sequence_def session_of_def bucket_of_def scope_of_def)

lemma bind_calls_tls: "bind_calls (tls_fields s ca m cfg) = bind_calls cfg"
  by (simp add: bind_calls_def timeouts_representable_def bind_sequence_tls)

lemma initialize_repo_tls:
  "initialize_repo (r\<lparr>conn_config := tls_fields s ca m (conn_config r)\<rparr>) w =
     (case initialize_repo r w of
        (res, r1, w1) \<Rightarrow> (res, r1\<lparr>conn_config := tls_fields s ca m (conn_config r1)\<rparr>, w1))"
proof (cases "conn r")
  case None
  have keep: "\<And>res r1 w1. create_conn (conn_config r) r w = (res, r1, w1) \<Longrightarrow>
      conn_config r1 = conn_config r"
    by (auto simp: create_conn_def sync_call_def await_call_def Let_def
        split: option.splits sum.splits)
  obtain res r1 w1 where cc: "create_conn (conn_config r) r w = (res, r1, w1)"
    by (cases "create_conn (conn_config r) r w")
  show ?thesis
    using None keep [OF cc]
    by (simp add: initialize_repo_def create_conn_tls create_conn_conn_config cc)
next
  case (Some h)
  then show ?thesis
    by (simp add: initialize_repo_def)
qed

lemma create_conn_binds:
  assumes "create_conn cfg r w = (Inr (), r', w')"
  shows "conn r' = Some (collection_of cfg)"
proof (cases "timeouts_representable cfg")
  case True
  then show ?thesis
    using create_conn_bind_sequence(2,3) [OF assms True] by (simp split: option.splits)
next
  case False
  then show ?thesis
    using create_conn_overflow(2) [OF assms False] by (simp split: option.splits)
qed

lemma initialize_repo_twice:
  assumes "initialize_repo r w = (Inr (), r1, w1)"
  shows "initialize_repo r1 w1 = (Inr (), r1, w1)"
proof (cases "conn r")
  case None
  with assms have "create_conn (conn_config r) r w = (Inr (), r1, w1)"
    by (simp add: initialize_repo_def)
  then have "conn r1 = Some (collection_of (conn_config r))"
    by (rule create_conn_binds)
  then show ?thesis
    by (simp add: initialize_repo_def)
next
  case (Some h)
  with assms show ?thesis
    by (simp add: initialize_repo_def)
qed

lemma initialize_repo_connection:
  "initialize_repo (OnlineRepoCouchbase_init connection) healthy =
     (Inr (), bound_repo, healthy\<lparr>trace := bind_sequence connection\<rparr>)"
  by (simp add: initialize_repo_def OnlineRepoCouchbase_init_def create_conn_def sync_call_def
      await_call_def Let_def healthy_def connection_def ConnConfig_init_def or_default_def
      local_cluster_def test_collection_def bound_repo_def run_loop_def called_def
      bind_sequence_def session_of_def bucket_of_def scope_of_def timedelta_def)

text \<open>
  C3: \<^verbatim>\<open>initialize_repo\<close> is idempotent. On a repository whose connection handle is
  bound, the call returns at once: the repository is unchanged and the world is unchanged,
  so no call of the bind sequence (no authenticator, no session) is made a second time.
\<close>

theorem initialize_repo_idempotent:
  "conn r = Some h \<Longrightarrow> initialize_repo r w = (Inr (), r, w)"
  by (simp add: initialize_repo_def)

theorem initialize_repo_idempotent_witness:
  "conn bound_repo = Some test_collection \<and>
   initialize_repo bound_repo healthy = (Inr (), bound_repo, healthy)"
proof -
  have h: "conn bound_repo = Some test_collection"
    by simp
  show ?thesis
    using h initialize_repo_idempotent [OF h, of healthy] by simp
qed

text \<open>
  C4 (the code at the module's own \<open>connection\<close>): \<^verbatim>\<open>initialize_repo\<close> succeeds with
  the seven calls of the bind sequence in order. The readiness wait is the call
  \<^verbatim>\<open>on_connect()\<close> on the session, which carries no timeout; the configured
  \<^verbatim>\<open>wait_timeout\<close> (5 by default) is read nowhere, and with 3600 in its place the calls
  and the resulting world are the same.
\<close>

theorem initialize_repo_ignores_wait_timeout:
  "fst (initialize_repo (OnlineRepoCouchbase_init connection) healthy) = Inr () \<and>
   trace (snd (snd (initialize_repo (OnlineRepoCouchbase_init connection) healthy))) =
     [CallAuthenticator ''Administrator'' ''password'',
      CallConnect ''couchbase://localhost''
        (ClusterOptions (PasswordAuthenticator ''Administrator'' ''password'')
           (ClusterTimeoutOptions 10 5)),
      CallClusterOnConnect local_cluster,
      CallBucket local_cluster ''test'',
      CallBucketOnConnect (Bucket local_cluster ''test''),
      CallScope (Bucket local_cluster ''test'') ''test'',
      CallCollection (Scope (Bucket local_cluster ''test'') ''test'') ''test''] \<and>
   wait_timeout connection = 5 \<and>
   snd (snd (initialize_repo (OnlineRepoCouchbase_init (connection\<lparr>wait_timeout := 3600\<rparr>))
      healthy)) =
     snd (snd (initialize_repo (OnlineRepoCouchbase_init connection) healthy)) \<and>
   fst (initialize_repo (OnlineRepoCouchbase_init (connection\<lparr>wait_timeout := 3600\<rparr>))
      healthy) = Inr ()"
  by (simp add: initialize_repo_def OnlineRepoCouchbase_init_def create_conn_def sync_call_def
      await_call_def Let_def healthy_def connection_def ConnConfig_init_def or_default_def
      local_cluster_def run_loop_def called_def timedelta_def)

text \<open>
  C10: the TLS flag, the CA certificate path and the authentication mechanism have no
  effect. With any other values in these three fields the bind sequence is the same list
  of calls, beginning with the username/password authenticator and the session opened at
  \<^verbatim>\<open>couchbase://\<close> followed by the host; \<^verbatim>\<open>create_conn\<close> makes the same calls with
  the same result, and the calls it makes are those of the bind sequence up to the first
  failure (the authenticator alone when a timeout is not representable as a duration);
  \<^verbatim>\<open>initialize_repo\<close> does the same up to the configuration the repository carries
  along; and every other operation returns the same result and world.
\<close>

theorem tls_fields_no_effect:
  "bind_sequence (tls_fields s ca m cfg) = bind_sequence cfg \<and>
   bind_calls (tls_fields s ca m cfg) = bind_calls cfg \<and>
   take 2 (bind_sequence cfg) =
     [CallAuthenticator (user_name cfg) (password cfg),
      CallConnect (''couchbase://'' @ host_or_dsn cfg)
        (ClusterOptions (PasswordAuthenticator (user_name cfg) (password cfg))
           (ClusterTimeoutOptions (connect_timeout cfg) (kv_timeout cfg)))] \<and>
   create_conn (tls_fields s ca m cfg) r w = create_conn cfg r w \<and>
   trace (snd (snd (create_conn cfg r w))) =
     trace w @ attempted (fault w) (bind_calls cfg) \<and>
   initialize_repo (r\<lparr>conn_config := tls_fields s ca m (conn_config r)\<rparr>) w =
     (case initialize_repo r w of
        (res, r1, w1) \<Rightarrow> (res, r1\<lparr>conn_config := tls_fields s ca m (conn_config r1)\<rparr>, w1)) \<and>
   validate (r\<lparr>conn_config := tls_fields s ca m (conn_config r)\<rparr>) w = validate r w \<and>
   find_by_key key compress (r\<lparr>conn_config := tls_fields s ca m (conn_config r)\<rparr>) w =
     find_by_key key compress r w \<and>
   save key v compress (r\<lparr>conn_config := tls_fields s ca m (conn_config r)\<rparr>) w =
     save key v compress r w \<and>
   save_all obj (r\<lparr>conn_config := tls_fields s ca m (conn_config r)\<rparr>) w = save_all obj r w \<and>
   native_query q (r\<lparr>conn_config := tls_fields s ca m (conn_config r)\<rparr>) w =
     native_query q r w"
proof -
  have two: "take 2 (bind_sequence cfg) =
     [CallAuthenticator (user_name cfg) (password cfg),
      CallConnect (''couchbase://'' @ host_or_dsn cfg)
        (ClusterOptions (PasswordAuthenticator (user_name cfg) (password cfg))
           (ClusterTimeoutOptions (connect_timeout cfg) (kv_timeout cfg)))]"
    by (simp add: bind_sequence_def)
  show ?thesis
    by (simp add: bind_sequence_tls bind_calls_tls create_conn_tls create_conn_bind_calls two
        initialize_repo_tls validate_def find_by_key_def save_def save_all_def native_query_def)
qed

text \<open>
  The same at a configuration whose connect timeout \<^verbatim>\<open>timedelta\<close> refuses: the
  authenticator is built, \<^verbatim>\<open>OverflowError\<close> is raised and no session is opened, whatever
  the three fields hold.
\<close>

theorem tls_fields_no_effect_witness:
  "create_conn (tls_fields True (Some ''ca.pem'') ''SCRAM-SHA-512''
       (connection\<lparr>connect_timeout := 1000000000000000\<rparr>))
     (OnlineRepoCouchbase_init connection) healthy =
   create_conn (connection\<lparr>connect_timeout := 1000000000000000\<rparr>)
     (OnlineRepoCouchbase_init connection) healthy \<and>
   fst (create_conn (connection\<lparr>connect_timeout := 1000000000000000\<rparr>)
     (OnlineRepoCouchbase_init connection) healthy) = Inl OverflowError \<and>
   trace (snd (snd (create_conn (connection\<lparr>connect_timeout := 1000000000000000\<rparr>)
     (OnlineRepoCouchbase_init connection) healthy))) =
     [CallAuthenticator ''Administrator'' ''password'']"
proof -
  let ?cfg = "connection\<lparr>connect_timeout := 1000000000000000\<rparr>"
  have nr: "\<not> timeouts_representable ?cfg"
    by (simp add: timeouts_representable_def timedelta_def)
  have "bind_calls ?cfg = take 1 (bind_sequence ?cfg)"
    by (simp only: bind_calls_def nr if_False)
  also have "\<dots> = [CallAuthenticator ''Administrator'' ''password'']"
    by (simp add: bind_sequence_def connection_def ConnConfig_init_def)
  finally have calls: "bind_calls ?cfg = [CallAuthenticator ''Administrator'' ''password'']" .
  obtain res r1 w1 where cc:
    "create_conn ?cfg (OnlineRepoCouchbase_init connection) healthy = (res, r1, w1)"
    by (cases "create_conn ?cfg (OnlineRepoCouchbase_init connection) healthy")
  have res: "res = Inl OverflowError"
    using create_conn_overflow(2) [OF cc nr] by simp
  show ?thesis
    using tls_fields_no_effect [of True "Some ''ca.pem''" "''SCRAM-SHA-512''" ?cfg
        "OnlineRepoCouchbase_init connection" healthy]
    by (simp add: calls cc res)
qed

text \<open>
  C8: \<^verbatim>\<open>validate\<close> looks the sentinel key \<^verbatim>\<open>dummykey\<close> up. When the key is absent and
  the lookup is answered, it returns \<^verbatim>\<open>None\<close> and does not raise. When the driver
  answers the lookup with any exception other than not-found, that exception is raised;
  with no handle at all, \<^verbatim>\<open>AttributeError\<close> is raised.
\<close>

theorem validate_outcomes:
  "(conn r = Some h \<and> fault w (CallGet h ''dummykey'' (Some RawBinaryTranscoder)) = None \<and>
      store (run_loop w) (coll_path h, ''dummykey'') = None
     \<longrightarrow> fst (validate r w) = Inr None) \<and>
   (conn r = Some h \<and> fault w (CallGet h ''dummykey'' (Some RawBinaryTranscoder)) = Some e \<and>
      e \<noteq> DocumentNotFoundException
     \<longrightarrow> fst (validate r w) = Inl e) \<and>
   (conn r = None \<longrightarrow> fst (validate r w) = Inl AttributeError)"
  by (simp add: validate_def await_get_def Let_def run_loop_called except_not_found_def)

theorem validate_outcomes_witness:
  "fst (validate bound_repo healthy) = Inr None \<and>
   fst (validate bound_repo unreachable) = Inl (CouchbaseException ''unreachable'') \<and>
   fst (validate (OnlineRepoCouchbase_init connection) healthy) = Inl AttributeError"
proof -
  have a: "conn bound_repo = Some test_collection \<and>
      fault healthy (CallGet test_collection ''dummykey'' (Some RawBinaryTranscoder)) = None \<and>
      store (run_loop healthy) (coll_path test_collection, ''dummykey'') = None"
    by (simp add: run_loop_idle)
  have b: "conn bound_repo = Some test_collection \<and>
      fault unreachable (CallGet test_collection ''dummykey'' (Some RawBinaryTranscoder)) =
        Some (CouchbaseException ''unreachable'') \<and>
      CouchbaseException ''unreachable'' \<noteq> DocumentNotFoundException"
    by (simp add: unreachable_def)
  have c: "conn (OnlineRepoCouchbase_init connection) = None"
    by (simp add: OnlineRepoCouchbase_init_def)
  show ?thesis
    using a b c
      validate_outcomes [of bound_repo test_collection healthy "CouchbaseException ''unreachable''"]
      validate_outcomes [of bound_repo test_collection unreachable
        "CouchbaseException ''unreachable''"]
      validate_outcomes [of "OnlineRepoCouchbase_init connection" test_collection healthy
        "CouchbaseException ''unreachable''"]
    by simp
qed

section \<open>Read path\<close>

text \<open>
  C5: for a key that the store does not hold, \<^verbatim>\<open>find_by_key\<close> on a bound repository
  returns \<^verbatim>\<open>None\<close> (absent) and raises nothing, whatever the \<^verbatim>\<open>compress\<close> flag; the
  only thing it does is the lookup. The store is read once the operations still pending
  have completed, and the driver answers the lookup.
\<close>

theorem find_by_key_absent:
  assumes "conn r = Some h"
    and "fault w (CallGet h key None) = None"
    and "store (run_loop w) (coll_path h, key) = None"
  shows "find_by_key key compress r w = (Inr None, called (CallGet h key None) (run_loop w))"
  using assms
  by (simp add: find_by_key_def await_get_def Let_def run_loop_called except_not_found_def)

theorem find_by_key_absent_witness:
  "fst (find_by_key ''no-such-key'' False bound_repo healthy) = Inr None \<and>
   fst (find_by_key ''no-such-key'' True bound_repo healthy) = Inr None"
proof -
  have h1: "conn bound_repo = Some test_collection"
    by simp
  have h2: "fault healthy (CallGet test_collection ''no-such-key'' None) = None"
    by simp
  have h3: "store (run_loop healthy) (coll_path test_collection, ''no-such-key'') = None"
    by (simp add: run_loop_idle)
  show ?thesis
    using find_by_key_absent [OF h1 h2 h3, of False] find_by_key_absent [OF h1 h2 h3, of True]
    by simp
qed

text \<open>
  The lookup of \<^verbatim>\<open>find_by_key\<close> is the same call for both values of \<^verbatim>\<open>compress\<close>: a
  \<^verbatim>\<open>get\<close> without transcoder. \<^verbatim>\<open>validate\<close> passes the raw transcoder to its \<^verbatim>\<open>get\<close>.
\<close>

lemma find_by_key_get_call:
  assumes "conn r = Some h"
  shows "trace (snd (find_by_key key compress r w)) = trace w @ [CallGet h key None]"
  using assms
  by (simp add: find_by_key_def await_get_def Let_def run_loop_called
      split: option.splits sum.splits GetResult.splits)

lemma validate_get_call:
  assumes "conn r = Some h"
  shows "trace (snd (validate r w)) =
         trace w @ [CallGet h ''dummykey'' (Some RawBinaryTranscoder)]"
  using assms
  by (simp add: validate_def await_get_def Let_def run_loop_called)

text \<open>
  A text payload with at least one character is returned as text: \<^verbatim>\<open>dict()\<close> raises
  \<^verbatim>\<open>ValueError\<close> on it, which the inner handler catches.
\<close>

lemma find_by_key_text_fallback:
  assumes "conn r = Some h"
    and "fault w (CallGet h key None) = None"
    and "store (run_loop w) (coll_path h, key) = Some (FMT_JSON, PyStr (c # s))"
  shows "fst (find_by_key key False r w) = Inr (Some (PyStr (c # s)))"
  using assms
  by (simp add: find_by_key_def await_get_def Let_def run_loop_called except_not_found_def)

section \<open>Write path and round trip\<close>

text \<open>
  In raw mode \<^verbatim>\<open>save\<close> writes bytes through \<^verbatim>\<open>RawBinaryTranscoder\<close>, and the
  \<^verbatim>\<open>find_by_key\<close> that follows reads them through the default transcoder: it raises
  for every key and every byte string.
\<close>

lemma save_find_raw:
  assumes "conn r = Some h"
    and "fault w (CallUpsert h key (PyBytes b) (Some RawBinaryTranscoder)) = None"
    and "fault w (CallGet h key None) = None"
  shows "fst (save key (PyBytes b) True r w) = Inr MutationResult"
    and "fst (find_by_key key True r (snd (save key (PyBytes b) True r w))) =
           Inl ValueFormatException"
proof -
  let ?w1 = "snd (await_upsert h key (PyBytes b) (Some RawBinaryTranscoder) w)"
  have enc: "encode_value (Some RawBinaryTranscoder) (PyBytes b) = Inr (FMT_BYTES, PyBytes b)"
    by simp
  note up = await_upsert_accepted [OF assms(2) enc]
  show "fst (save key (PyBytes b) True r w) = Inr MutationResult"
    using assms(1) up(1) by (simp add: save_def)
  have sv: "snd (save key (PyBytes b) True r w) = ?w1"
    using assms(1) by (simp add: save_def)
  have g: "fst (await_get h key None ?w1) =
      map_sum id GetResult (decode_value None (FMT_BYTES, PyBytes b))"
    by (rule await_get_stored) (simp_all add: up assms(3))
  obtain res w2 where ag: "await_get h key None ?w1 = (res, w2)"
    by force
  with g have "res = Inl ValueFormatException"
    by simp
  with ag show "fst (find_by_key key True r (snd (save key (PyBytes b) True r w))) =
      Inl ValueFormatException"
    using assms(1) unfolding sv
    by (simp add: find_by_key_def except_not_found_def)
qed

text \<open>
  In structured mode the round trip holds for a text with at least one character and for
  a map that serialises.
\<close>

lemma save_find_structured:
  assumes "conn r = Some h"
    and "fault w (CallUpsert h key v None) = None"
    and "fault w (CallGet h key None) = None"
    and "(\<exists>c s. v = PyStr (c # s)) \<or> (\<exists>kvs. v = PyDict kvs \<and> json_serializable v)"
  shows "fst (find_by_key key False r (snd (save key v False r w))) = Inr (Some v)"
proof -
  let ?w1 = "snd (await_upsert h key v None w)"
  have enc: "encode_value None v = Inr (FMT_JSON, v)"
    using assms(4) by auto
  note up = await_upsert_accepted [OF assms(2) enc]
  have sv: "snd (save key v False r w) = ?w1"
    using assms(1) by (simp add: save_def)
  have g: "fst (await_get h key None ?w1) = map_sum id GetResult (decode_value None (FMT_JSON, v))"
    by (rule await_get_stored) (simp_all add: up assms(3))
  obtain res w2 where ag: "await_get h key None ?w1 = (res, w2)"
    by force
  with g have res: "res = Inr (GetResult v)"
    by simp
  have cast: "content_as_dict v = Inr v \<or>
      (content_as_dict v = Inl ValueError \<and> content_as_str w2 v = v)"
    using assms(4) by auto
  show ?thesis
    using assms(1) ag res cast unfolding sv
    by (auto simp: find_by_key_def except_not_found_def)
qed

text \<open>
  C1 (the code at \<^verbatim>\<open>save("k", bytes([1, 2]), True)\<close> followed by
  \<^verbatim>\<open>find_by_key("k", True)\<close>, on the bound repository and an empty backend that accepts
  every call): the save succeeds, the read raises \<^verbatim>\<open>ValueFormatException\<close> instead of
  returning the bytes saved, and the two driver calls are an \<^verbatim>\<open>upsert\<close> with the raw
  transcoder and a \<^verbatim>\<open>get\<close> without it.
\<close>

theorem save_find_raw_mismatch:
  "fst (save ''k'' (PyBytes [1, 2]) True bound_repo healthy) = Inr MutationResult \<and>
   fst (find_by_key ''k'' True bound_repo
          (snd (save ''k'' (PyBytes [1, 2]) True bound_repo healthy))) =
     Inl ValueFormatException \<and>
   trace (snd (find_by_key ''k'' True bound_repo
          (snd (save ''k'' (PyBytes [1, 2]) True bound_repo healthy)))) =
     [CallUpsert test_collection ''k'' (PyBytes [1, 2]) (Some RawBinaryTranscoder),
      CallGet test_collection ''k'' None]"
proof -
  have h: "conn bound_repo = Some test_collection"
    by (simp add: bound_repo_def)
  have "trace (snd (save ''k'' (PyBytes [1, 2]) True bound_repo healthy)) =
      [CallUpsert test_collection ''k'' (PyBytes [1, 2]) (Some RawBinaryTranscoder)]"
    by (simp add: save_def await_upsert_trace)
  then show ?thesis
    using save_find_raw [OF h, of healthy "''k''" "[1, 2]"] find_by_key_get_call [OF h]
    by simp
qed

text \<open>
  C6 (the code at two stored payloads that are not maps, read with \<^verbatim>\<open>compress\<close> false):
  bytes written in raw mode make the \<^verbatim>\<open>get\<close> itself raise \<^verbatim>\<open>ValueFormatException\<close>,
  outside the inner \<^verbatim>\<open>try\<close>; the number 5 makes \<^verbatim>\<open>dict()\<close> raise \<^verbatim>\<open>TypeError\<close>,
  which the handler for \<^verbatim>\<open>ValueError\<close> does not catch. In both cases the exception
  leaves \<^verbatim>\<open>find_by_key\<close> and no text is returned.
\<close>

theorem find_by_key_fallback_raises:
  "fst (find_by_key ''k'' False bound_repo
          (snd (save ''k'' (PyBytes [0, 1]) True bound_repo healthy))) =
     Inl ValueFormatException \<and>
   fst (find_by_key ''n'' False bound_repo
          (snd (save ''n'' (PyInt 5) False bound_repo healthy))) = Inl TypeError"
  by (simp add: find_by_key_def save_def await_get_def await_upsert_def Let_def
      run_loop_dispatch run_loop_called run_loop_idle upsert_outcome_def complete.simps
      except_not_found_def)

section \<open>Bulk save\<close>

text \<open>
  \<^verbatim>\<open>save_all\<close> on a bound repository hands one \<^verbatim>\<open>upsert\<close> per entry to the driver, in
  iteration order, and returns \<^verbatim>\<open>None\<close>; no operation has completed when it returns, so
  the store is as before and nothing the backend answers can be raised.
\<close>

lemma save_all_items_dispatch:
  "save_all_items (Some h) kvs w =
     (Inr (), w\<lparr>trace := trace w @ map (\<lambda>(k, v). CallUpsert h k v None) kvs,
               pending := pending w @ map (\<lambda>(k, v). CallUpsert h k v None) kvs\<rparr>)"
proof (induction kvs arbitrary: w)
  case Nil
  show ?case by simp
next
  case (Cons kv kvs)
  obtain k v where kv: "kv = (k, v)"
    by (cases kv)
  show ?case
    unfolding kv by (simp add: Cons.IH dispatch_def)
qed

lemma save_all_not_awaited:
  assumes "conn r = Some h"
  shows "fst (save_all obj r w) = Inr ()"
    and "store (snd (save_all obj r w)) = store w"
    and "pending (snd (save_all obj r w)) =
           pending w @ map (\<lambda>(k, v). CallUpsert h k v None) obj"
    and "trace (snd (save_all obj r w)) = trace w @ map (\<lambda>(k, v). CallUpsert h k v None) obj"
  using assms by (simp_all add: save_all_def save_all_items_dispatch)

lemma save_all_drops_errors:
  assumes "conn r = Some h"
  shows "fst (save_all obj r unreachable) = Inr ()"
  using assms by (simp add: save_all_def save_all_items_dispatch)

lemma save_raises_error:
  assumes "conn r = Some h" and "fault w (CallUpsert h key v None) = Some e"
  shows "fst (save key v False r w) = Inl e"
  using assms by (simp add: save_def await_upsert_def Let_def upsert_outcome_def)

text \<open>
  With a driver that hands an operation over when the method is called and completes the
  operations in that order, as \<open>dispatch\<close> and \<open>run_loop\<close> have it, the entries are
  retrievable once an \<^verbatim>\<open>await\<close> has let the event loop complete the pending
  operations, as the \<^verbatim>\<open>await\<close> inside a later \<^verbatim>\<open>find_by_key\<close> does. A driver that
  starts an operation only when its awaitable is awaited never stores them.
\<close>

lemma save_all_then_find:
  assumes "conn r = Some h" and "pending w = []"
    and "distinct (map fst obj)" and "(k, v) \<in> set obj"
    and "fault w (CallUpsert h k v None) = None"
    and "fault w (CallGet h k None) = None"
    and "(\<exists>c s. v = PyStr (c # s)) \<or> (\<exists>kvs. v = PyDict kvs \<and> json_serializable v)"
  shows "fst (find_by_key k False r (snd (save_all obj r w))) = Inr (Some v)"
proof -
  let ?ups = "map (\<lambda>(k, v). CallUpsert h k v None) obj"
  let ?w1 = "snd (save_all obj r w)"
  have enc: "encode_value None v = Inr (FMT_JSON, v)"
    using assms(7) by auto
  have w1: "?w1 = w\<lparr>trace := trace w @ ?ups, pending := ?ups\<rparr>"
    using assms(1,2) by (simp add: save_all_def save_all_items_dispatch)
  have "run_loop ?w1 = fold complete ?ups (w\<lparr>trace := trace w @ ?ups, pending := []\<rparr>)"
    unfolding w1 by (simp add: run_loop_def)
  then have st: "store (run_loop ?w1) (coll_path h, k) = Some (FMT_JSON, v)"
    using fold_complete_store_member [OF assms(3,4) _ enc,
        of "w\<lparr>trace := trace w @ ?ups, pending := []\<rparr>" h] assms(5)
    by simp
  have flt: "fault ?w1 = fault w"
    unfolding w1 by simp
  obtain res w2 where ag: "await_get h k None ?w1 = (res, w2)"
    by force
  then have res: "res = Inr (GetResult v)"
    using st flt assms(6) by (auto simp: await_get_def Let_def run_loop_called)
  have cast: "content_as_dict v = Inr v \<or>
      (content_as_dict v = Inl ValueError \<and> content_as_str w2 v = v)"
    using assms(7) by auto
  show ?thesis
    using assms(1) ag res cast by (auto simp: find_by_key_def except_not_found_def)
qed

text \<open>
  C2 (the code at \<^verbatim>\<open>save_all({"a": "x", "b": "y"})\<close>, on the bound repository and an
  empty backend that accepts every call): \<^verbatim>\<open>save_all\<close> returns with both upserts
  handed over in iteration order and still pending, and with neither key in the store;
  \<^verbatim>\<open>save\<close> of the first entry returns with nothing pending and the key stored.
\<close>

theorem save_all_returns_before_completion:
  "fst (save_all [(''a'', PyStr ''x''), (''b'', PyStr ''y'')] bound_repo healthy) = Inr () \<and>
   pending (snd (save_all [(''a'', PyStr ''x''), (''b'', PyStr ''y'')] bound_repo healthy)) =
     [CallUpsert test_collection ''a'' (PyStr ''x'') None,
      CallUpsert test_collection ''b'' (PyStr ''y'') None] \<and>
   store (snd (save_all [(''a'', PyStr ''x''), (''b'', PyStr ''y'')] bound_repo healthy))
     (coll_path test_collection, ''a'') = None \<and>
   store (snd (save_all [(''a'', PyStr ''x''), (''b'', PyStr ''y'')] bound_repo healthy))
     (coll_path test_collection, ''b'') = None \<and>
   pending (snd (save ''a'' (PyStr ''x'') False bound_repo healthy)) = [] \<and>
   store (snd (save ''a'' (PyStr ''x'') False bound_repo healthy))
     (coll_path test_collection, ''a'') = Some (FMT_JSON, PyStr ''x'')"
proof -
  have h: "conn bound_repo = Some test_collection"
    by (simp add: bound_repo_def)
  have f: "fault healthy (CallUpsert test_collection ''a'' (PyStr ''x'') None) = None"
    by simp
  have e: "encode_value None (PyStr ''x'') = Inr (FMT_JSON, PyStr ''x'')"
    by simp
  have s: "save ''a'' (PyStr ''x'') False bound_repo healthy =
      await_upsert test_collection ''a'' (PyStr ''x'') None healthy"
    by (simp add: save_def h)
  show ?thesis
    using save_all_not_awaited [OF h, of "[(''a'', PyStr ''x''), (''b'', PyStr ''y'')]" healthy]
      await_upsert_accepted [OF f e]
    by (simp add: s)
qed

section \<open>Native query\<close>

text \<open>The comprehension yields the rows of an iterator, in its order.\<close>

lemma comprehension_append: "comprehension acc result = acc @ result"
  by (induction result arbitrary: acc) simp_all

text \<open>
  On a repository with a session whose \<^verbatim>\<open>query\<close> call is answered, \<^verbatim>\<open>native_query\<close>
  raises \<^verbatim>\<open>AttributeError\<close> for every statement, whatever rows the backend yields: the
  comprehension never gets an iterator.
\<close>

lemma native_query_async_result:
  assumes "cluster r = Some cl" and "fault w (CallQuery cl query) = None"
  shows "native_query query r w = (Inl AttributeError, called (CallQuery cl query) w)"
  using assms by (simp add: native_query_def cluster_query_def sync_call_def)

text \<open>
  C7 (the code at \<^verbatim>\<open>native_query("SELECT 1")\<close>, on the bound repository and a backend
  that accepts every call): with a backend that yields two rows for the statement the
  call raises \<^verbatim>\<open>AttributeError\<close> instead of returning the two rows, and with a backend
  that yields no rows it raises \<^verbatim>\<open>AttributeError\<close> instead of returning the empty
  list.
\<close>

theorem native_query_raises:
  "rows two_rows ''SELECT 1'' = [PyInt 1, PyInt 2] \<and>
   fst (native_query ''SELECT 1'' bound_repo two_rows) = Inl AttributeError \<and>
   rows healthy ''SELECT 1'' = [] \<and>
   fst (native_query ''SELECT 1'' bound_repo healthy) = Inl AttributeError"
proof -
  have h1: "cluster bound_repo = Some local_cluster"
    by simp
  have h2: "fault healthy (CallQuery local_cluster ''SELECT 1'') = None"
    by simp
  have h3: "fault two_rows (CallQuery local_cluster ''SELECT 1'') = None"
    by (simp add: two_rows_def)
  show ?thesis
    using native_query_async_result [OF h1 h2] native_query_async_result [OF h1 h3]
    by (simp add: two_rows_def)
qed

end
